theory Spec2Isabelle
  imports Main
begin

section \<open>The greeting service\<close>

text \<open>
  The service is \<^verbatim>\<open>app/main.py\<close>:
  \<^verbatim>\<open>
  app = FastAPI()

  @app.get("/echo")
  def echo():
      return {"message": "Hello, World!"}

  @app.get("/echo/{name}")
  def echo_name(name: str):
      return {"message": f"Hello, {name}!"}
  \<close>
  The two handlers are pure functions of their argument. Everything else a request meets
  (route matching, the answer when no route matches) is the behaviour of the application
  object that \<^verbatim>\<open>FastAPI()\<close> builds with its default arguments; it is written out below
  as far as the status code and the payload of a response depend on it.

  Strings are HOL strings. A path is the percent-decoded path of the request, which is what
  the router matches against; query string and headers take no part in routing.
\<close>

subsection \<open>Handlers\<close>

text \<open>A handler returns a Python dict with string keys and string values, in insertion order.\<close>

type_synonym payload = "(string \<times> string) list"

definition echo :: payload where
  "echo = [(''message'', ''Hello, World!'')]"

text \<open>The f-string \<^verbatim>\<open>f"Hello, {name}!"\<close> of a \<^verbatim>\<open>str\<close> is the concatenation of its three parts.\<close>

definition echo_name :: "string \<Rightarrow> payload" where
  "echo_name name = [(''message'', ''Hello, '' @ name @ ''!'')]"

subsection \<open>Requests, responses and routes\<close>

text \<open>
  The endpoints registered on the application: the four that \<^verbatim>\<open>FastAPI()\<close> registers itself
  (the OpenAPI document and the documentation pages), then the two of the service.
\<close>

datatype endpoint =
  Openapi | Swagger_ui_html | Swagger_ui_redirect | Redoc_html | Echo | Echo_name

datatype content =
  JSON payload
  | Page endpoint
  | Location string
  | Validation_error

record request =
  http_method :: string
  path :: string

record response =
  status_code :: nat
  content :: content

text \<open>
  A compiled path: \<open>Static p\<close> is a path without parameters, \<open>Param p n\<close> is the prefix \<open>p\<close>
  followed by one parameter \<open>{n}\<close> that ends the path.
\<close>

datatype path_format = Static string | Param string string

record route =
  path_format :: path_format
  methods :: "string list"
  endpoint :: endpoint

type_synonym params = "(string \<times> string) list"

text \<open>
  The router matches a path with the regular expression compiled from the route's path,
  \<^verbatim>\<open>^/echo$\<close> and \<^verbatim>\<open>^/echo/(?P<name>[^/]+)$\<close> for the two routes of the service. In Python
  \<^verbatim>\<open>$\<close> also matches just before a line feed that ends the string. A parameter takes one or
  more characters other than \<^verbatim>\<open>/\<close>; since it ends the path, it takes the whole rest.
\<close>

fun match_path :: "path_format \<Rightarrow> string \<Rightarrow> params option" where
  "match_path (Static p) s =
     (if s = p \<or> s = p @ [CHR 0x0A] then Some [] else None)"
| "match_path (Param p n) s =
     (if take (length p) s = p \<and> 0 < length (drop (length p) s)
         \<and> CHR ''/'' \<notin> set (drop (length p) s)
      then Some [(n, drop (length p) s)] else None)"

datatype match = NONE | PARTIAL | FULL

definition matches :: "route \<Rightarrow> request \<Rightarrow> match \<times> params" where
  "matches r req =
     (case match_path (path_format r) (path req) of
        None \<Rightarrow> (NONE, [])
      | Some ps \<Rightarrow> if http_method req \<in> set (methods r) then (FULL, ps) else (PARTIAL, ps))"

text \<open>
  Calling an endpoint. The service's handlers answer 200 with their dict as JSON. A
  required parameter that the path did not bind is a validation error (422).
\<close>

fun run_endpoint :: "endpoint \<Rightarrow> params \<Rightarrow> response" where
  "run_endpoint Echo ps = \<lparr>status_code = 200, content = JSON echo\<rparr>"
| "run_endpoint Echo_name ps =
     (case map_of ps ''name'' of
        Some name \<Rightarrow> \<lparr>status_code = 200, content = JSON (echo_name name)\<rparr>
      | None \<Rightarrow> \<lparr>status_code = 422, content = Validation_error\<rparr>)"
| "run_endpoint e ps = \<lparr>status_code = 200, content = Page e\<rparr>"

definition method_not_allowed :: response where
  "method_not_allowed =
     \<lparr>status_code = 405, content = JSON [(''detail'', ''Method Not Allowed'')]\<rparr>"

definition not_found :: response where
  "not_found = \<lparr>status_code = 404, content = JSON [(''detail'', ''Not Found'')]\<rparr>"

definition handle :: "route \<Rightarrow> request \<Rightarrow> params \<Rightarrow> response" where
  "handle r req ps =
     (if http_method req \<in> set (methods r) then run_endpoint (endpoint r) ps
      else method_not_allowed)"

text \<open>
  The router takes the first route that matches path and method; failing that, the first
  route that matches the path alone.
\<close>

fun find_route :: "route list \<Rightarrow> request \<Rightarrow> (route \<times> params) option
    \<Rightarrow> (route \<times> params) option" where
  "find_route [] req partial = partial"
| "find_route (r # rs) req partial =
     (case matches r req of
        (FULL, ps) \<Rightarrow> Some (r, ps)
      | (PARTIAL, ps) \<Rightarrow>
          find_route rs req (if partial = None then Some (r, ps) else partial)
      | (NONE, ps) \<Rightarrow> find_route rs req partial)"

definition rstrip :: "char \<Rightarrow> string \<Rightarrow> string" where
  "rstrip c s = rev (dropWhile (\<lambda>x. x = c) (rev s))"

text \<open>
  With no route for the path, the router (\<^verbatim>\<open>redirect_slashes\<close> is on by default) tries the
  path with its trailing slashes removed or, when it has none, with one added, and answers
  with a redirect to it when some route matches that path. \<open>Location p\<close> stands for the
  redirect response, \<open>p\<close> being the path of the URL in its \<^verbatim>\<open>Location\<close> header.
\<close>

definition redirect_path :: "string \<Rightarrow> string" where
  "redirect_path p =
     (if 0 < length p \<and> last p = CHR ''/'' then rstrip (CHR ''/'') p else p @ ''/'')"

definition redirects :: "route list \<Rightarrow> request \<Rightarrow> bool" where
  "redirects routes req =
     (path req \<noteq> ''/'' \<and>
      list_ex (\<lambda>r. fst (matches r (req\<lparr>path := redirect_path (path req)\<rparr>)) \<noteq> NONE) routes)"

definition dispatch :: "route list \<Rightarrow> request \<Rightarrow> response" where
  "dispatch routes req =
     (case find_route routes req None of
        Some (r, ps) \<Rightarrow> handle r req ps
      | None \<Rightarrow>
          if redirects routes req
          then \<lparr>status_code = 307, content = Location (redirect_path (path req))\<rparr>
          else not_found)"

text \<open>Whether a path matches the path of some route, whatever the method.\<close>

definition path_known :: "route list \<Rightarrow> string \<Rightarrow> bool" where
  "path_known routes p = list_ex (\<lambda>r. match_path (path_format r) p \<noteq> None) routes"

text \<open>The endpoint that serves a request, when one does.\<close>

definition served_by :: "route list \<Rightarrow> request \<Rightarrow> endpoint option" where
  "served_by routes req =
     (case find_route routes req None of
        Some (r, ps) \<Rightarrow> if http_method req \<in> set (methods r) then Some (endpoint r) else None
      | None \<Rightarrow> None)"

subsection \<open>The application\<close>

text \<open>
  \<^verbatim>\<open>FastAPI()\<close> starts with its own routes; they answer GET and HEAD. The decorator
  \<^verbatim>\<open>@app.get(path)\<close> appends a route that answers GET only.
\<close>

definition builtin :: "string \<Rightarrow> endpoint \<Rightarrow> route" where
  "builtin p e = \<lparr>path_format = Static p, methods = [''GET'', ''HEAD''], endpoint = e\<rparr>"

definition FastAPI :: "route list" where
  "FastAPI =
     [builtin ''/openapi.json'' Openapi,
      builtin ''/docs'' Swagger_ui_html,
      builtin ''/docs/oauth2-redirect'' Swagger_ui_redirect,
      builtin ''/redoc'' Redoc_html]"

definition get :: "route list \<Rightarrow> path_format \<Rightarrow> endpoint \<Rightarrow> route list" where
  "get routes pf e = routes @ [\<lparr>path_format = pf, methods = [''GET''], endpoint = e\<rparr>]"

definition app :: "route list" where
  "app = get (get FastAPI (Static ''/echo'') Echo) (Param ''/echo/'' ''name'') Echo_name"

definition GET :: "string \<Rightarrow> request" where
  "GET p = \<lparr>http_method = ''GET'', path = p\<rparr>"

text \<open>
  The paths of the application written out as a table, apart from the router: the endpoint
  whose path a given path matches, if any. The four documentation paths and \<^verbatim>\<open>/echo\<close> match
  as they stand or followed by one line feed; \<^verbatim>\<open>/echo/{name}\<close> matches \<^verbatim>\<open>/echo/\<close> followed by a
  non-empty rest without \<^verbatim>\<open>/\<close>.
\<close>

definition path_table :: "string \<Rightarrow> endpoint option" where
  "path_table p =
     (if p = ''/openapi.json'' \<or> p = ''/openapi.json'' @ [CHR 0x0A] then Some Openapi
      else if p = ''/docs'' \<or> p = ''/docs'' @ [CHR 0x0A] then Some Swagger_ui_html
      else if p = ''/docs/oauth2-redirect'' \<or> p = ''/docs/oauth2-redirect'' @ [CHR 0x0A]
        then Some Swagger_ui_redirect
      else if p = ''/redoc'' \<or> p = ''/redoc'' @ [CHR 0x0A] then Some Redoc_html
      else if p = ''/echo'' \<or> p = ''/echo'' @ [CHR 0x0A] then Some Echo
      else if take (length ''/echo/'') p = ''/echo/'' \<and> drop (length ''/echo/'') p \<noteq> []
          \<and> CHR ''/'' \<notin> set (drop (length ''/echo/'') p)
        then Some Echo_name
      else None)"

text \<open>
  Reading the name back out of a greeting, as \<^verbatim>\<open>removeprefix\<close> and \<^verbatim>\<open>removesuffix\<close> do.
\<close>

definition removeprefix :: "string \<Rightarrow> string \<Rightarrow> string" where
  "removeprefix pre s = (if take (length pre) s = pre then drop (length pre) s else s)"

definition removesuffix :: "string \<Rightarrow> string \<Rightarrow> string" where
  "removesuffix suf s =
     (if 0 < length suf \<and> length suf \<le> length s
         \<and> drop (length s - length suf) s = suf
      then take (length s - length suf) s else s)"

definition strip_greeting :: "payload \<Rightarrow> string option" where
  "strip_greeting p =
     map_option (\<lambda>m. removesuffix ''!'' (removeprefix ''Hello, '' m)) (map_of p ''message'')"

section \<open>Properties\<close>

lemmas app_defs = app_def get_def FastAPI_def builtin_def
lemmas router_defs = dispatch_def matches_def handle_def redirects_def redirect_path_def
  rstrip_def not_found_def method_not_allowed_def served_by_def

subsection \<open>Route lookup\<close>

lemma find_route_Some_start: "find_route rs req (Some x) \<noteq> None"
  by (induction rs arbitrary: x)
    (auto simp: matches_def simp del: not_None_eq split: option.splits if_splits)

lemma find_route_None_iff:
  "find_route rs req p = None \<longleftrightarrow>
     p = None \<and> (\<forall>r\<in>set rs. match_path (path_format r) (path req) = None)"
  by (induction rs arbitrary: p)
    (auto simp: matches_def simp del: not_None_eq split: option.splits if_splits)

lemma find_route_SomeD:
  "find_route rs req p = Some (r, ps) \<Longrightarrow>
     p = Some (r, ps) \<or> (r \<in> set rs \<and> match_path (path_format r) (path req) = Some ps)"
  by (induction rs arbitrary: p) (auto simp: matches_def split: option.splits if_splits)

lemma dispatch_found:
  assumes "find_route routes req None = Some (r, ps)"
  shows "dispatch routes req = handle r req ps" and "r \<in> set routes"
    and "match_path (path_format r) (path req) = Some ps"
  using assms find_route_SomeD [OF assms] by (simp_all add: dispatch_def)

lemma dispatch_unfound:
  assumes "find_route routes req None = None"
  shows "dispatch routes req =
     (if redirects routes req
      then \<lparr>status_code = 307, content = Location (redirect_path (path req))\<rparr>
      else not_found)"
  using assms by (simp add: dispatch_def)

lemma path_known_iff:
  "path_known routes (path req) \<longleftrightarrow> find_route routes req None \<noteq> None"
  by (auto simp: path_known_def list_ex_iff find_route_None_iff simp del: not_None_eq)

lemma set_app:
  "set app = {builtin ''/openapi.json'' Openapi, builtin ''/docs'' Swagger_ui_html,
      builtin ''/docs/oauth2-redirect'' Swagger_ui_redirect, builtin ''/redoc'' Redoc_html,
      \<lparr>path_format = Static ''/echo'', methods = [''GET''], endpoint = Echo\<rparr>,
      \<lparr>path_format = Param ''/echo/'' ''name'', methods = [''GET''], endpoint = Echo_name\<rparr>}"
  by (simp add: app_def get_def FastAPI_def)

text \<open>What each route of the application does once its path has matched.\<close>

lemma run_app_route:
  assumes "r \<in> set app" and "match_path (path_format r) p = Some ps"
  shows "(endpoint r = Echo \<and> methods r = [''GET'']
          \<and> run_endpoint (endpoint r) ps = \<lparr>status_code = 200, content = JSON echo\<rparr>)
       \<or> (endpoint r = Echo_name \<and> methods r = [''GET'']
          \<and> run_endpoint (endpoint r) ps
              = \<lparr>status_code = 200, content = JSON (echo_name (drop (length ''/echo/'') p))\<rparr>)
       \<or> (endpoint r \<noteq> Echo \<and> endpoint r \<noteq> Echo_name \<and> methods r = [''GET'', ''HEAD'']
          \<and> run_endpoint (endpoint r) ps = \<lparr>status_code = 200, content = Page (endpoint r)\<rparr>)"
  using assms unfolding set_app builtin_def
  by (auto split: if_splits)

subsection \<open>The router on the application's paths\<close>

lemma path_known_app: "path_known app p \<longleftrightarrow> path_table p \<noteq> None"
  by (simp add: path_known_def app_defs path_table_def)

lemma rstrip_replicate:
  "q = [] \<or> last q \<noteq> c \<Longrightarrow> rstrip c (q @ replicate n c) = q"
  by (cases q rule: rev_cases) (auto simp: rstrip_def dropWhile_append3 dropWhile_replicate)

lemma redirects_iff:
  "redirects routes req \<longleftrightarrow> path req \<noteq> ''/'' \<and> path_known routes (redirect_path (path req))"
  by (auto simp: redirects_def path_known_def matches_def list_ex_iff split: option.splits if_splits)

lemma drop_slash_end:
  "drop n (x @ ''/'') \<noteq> [] \<Longrightarrow> CHR ''/'' \<in> set (drop n (x @ ''/''))"
proof -
  assume a: "drop n (x @ ''/'') \<noteq> []"
  then have "\<not> length (x @ ''/'') \<le> n"
    unfolding drop_eq_Nil .
  then have "n < length (x @ ''/'')"
    by (simp only: not_le)
  then have "last (drop n (x @ ''/'')) = last (x @ ''/'')"
    by (rule last_drop)
  with last_in_set [OF a] show ?thesis
    by simp
qed

lemma slash_end_unknown: "path_table (x @ ''/'') = None"
proof -
  have stat: "x @ ''/'' \<noteq> y" if "y \<noteq> []" "last y \<noteq> CHR ''/''" for y
    using that by (metis last_snoc)
  have par: "drop n (x @ ''/'') = [] \<or> CHR ''/'' \<in> set (drop n (x @ ''/''))" for n
    using drop_slash_end by blast
  show ?thesis
    using par [of "length ''/echo/''"]
    by (simp add: path_table_def stat del: drop_append take_append)
qed

lemma slashes_end_unknown: "path_table (q @ replicate (Suc k) CHR ''/'') = None"
proof -
  have "q @ replicate (Suc k) CHR ''/'' = (q @ replicate k CHR ''/'') @ ''/''"
    by (simp add: replicate_append_same)
  then show ?thesis
    by (simp only: slash_end_unknown)
qed

lemma redirect_path_strip:
  "q = [] \<or> last q \<noteq> CHR ''/'' \<Longrightarrow> redirect_path (q @ replicate (Suc k) CHR ''/'') = q"
  using rstrip_replicate [of q "CHR ''/''" "Suc k"]
  by (simp add: redirect_path_def del: replicate_Suc)

lemma redirect_path_add:
  "p = [] \<or> last p \<noteq> CHR ''/'' \<Longrightarrow> redirect_path p = p @ ''/''"
  by (auto simp: redirect_path_def)

lemma path_table_cases:
  assumes "path_table p = Some e"
  shows "(e = Openapi \<and> (p = ''/openapi.json'' \<or> p = ''/openapi.json'' @ [CHR 0x0A]))
    \<or> (e = Swagger_ui_html \<and> (p = ''/docs'' \<or> p = ''/docs'' @ [CHR 0x0A]))
    \<or> (e = Swagger_ui_redirect
         \<and> (p = ''/docs/oauth2-redirect'' \<or> p = ''/docs/oauth2-redirect'' @ [CHR 0x0A]))
    \<or> (e = Redoc_html \<and> (p = ''/redoc'' \<or> p = ''/redoc'' @ [CHR 0x0A]))
    \<or> (e = Echo \<and> (p = ''/echo'' \<or> p = ''/echo'' @ [CHR 0x0A]))
    \<or> (e = Echo_name \<and> (\<exists>s. p = ''/echo/'' @ s \<and> s \<noteq> [] \<and> CHR ''/'' \<notin> set s))"
proof (cases "e = Echo_name")
  case True
  with assms have t: "take (length ''/echo/'') p = ''/echo/''"
    and d: "drop (length ''/echo/'') p \<noteq> []" "CHR ''/'' \<notin> set (drop (length ''/echo/'') p)"
    unfolding path_table_def by (simp_all split: if_splits)
  from t have "p = ''/echo/'' @ drop (length ''/echo/'') p"
    by (metis append_take_drop_id)
  with d True show ?thesis
    by blast
next
  case False
  with assms show ?thesis
    unfolding path_table_def by (simp split: if_splits)
qed

lemma dispatch_known:
  assumes "path_table p = Some e"
  shows "dispatch app \<lparr>http_method = m, path = p\<rparr> =
     (if m = ''GET'' \<or> (m = ''HEAD'' \<and> e \<noteq> Echo \<and> e \<noteq> Echo_name)
      then run_endpoint e [(''name'', drop (length ''/echo/'') p)]
      else method_not_allowed)
    \<and> served_by app \<lparr>http_method = m, path = p\<rparr> =
     (if m = ''GET'' \<or> (m = ''HEAD'' \<and> e \<noteq> Echo \<and> e \<noteq> Echo_name)
      then Some e else None)"
  using path_table_cases [OF assms]
  by (elim disjE conjE exE; hypsubst; simp add: app_defs router_defs)

lemma dispatch_unknown:
  assumes "path_table p = None"
  shows "dispatch app \<lparr>http_method = m, path = p\<rparr> =
     (if p \<noteq> ''/'' \<and> path_table (redirect_path p) \<noteq> None
      then \<lparr>status_code = 307, content = Location (redirect_path p)\<rparr>
      else not_found)
    \<and> served_by app \<lparr>http_method = m, path = p\<rparr> = None"
proof -
  from assms have "find_route app \<lparr>http_method = m, path = p\<rparr> None = None"
    using path_known_iff [of app "\<lparr>http_method = m, path = p\<rparr>"]
    by (simp add: path_known_app del: not_None_eq)
  then show ?thesis
    using dispatch_unfound [of app "\<lparr>http_method = m, path = p\<rparr>"]
    by (simp add: served_by_def redirects_iff path_known_app)
qed

text \<open>
  The documentation routes that the framework registers answer HEAD as well as GET; the
  routes of the service answer GET only.
\<close>

lemma head_docs_page:
  "dispatch app \<lparr>http_method = ''HEAD'', path = ''/docs''\<rparr>
     = \<lparr>status_code = 200, content = Page Swagger_ui_html\<rparr>"
  by (simp add: app_defs router_defs)

lemma head_echo_not_allowed:
  "dispatch app \<lparr>http_method = ''HEAD'', path = ''/echo''\<rparr> = method_not_allowed"
  by (simp add: app_defs router_defs)

subsection \<open>The greeting endpoints\<close>

text \<open>
  C1. For every non-empty string \<open>s\<close> without \<^verbatim>\<open>/\<close>, \<^verbatim>\<open>GET /echo/{s}\<close> answers 200 with the
  payload \<^verbatim>\<open>{"message": "Hello, {s}!"}\<close>, in which \<open>s\<close>, the decoded value, stands as it is:
  nothing is escaped, cut or removed.
\<close>

theorem echo_name_ok:
  "s \<noteq> [] \<Longrightarrow> CHR ''/'' \<notin> set s \<Longrightarrow>
   dispatch app (GET (''/echo/'' @ s))
     = \<lparr>status_code = 200, content = JSON [(''message'', ''Hello, '' @ s @ ''!'')]\<rparr>"
  by (simp add: app_defs router_defs GET_def echo_name_def)

theorem echo_name_ok_witness:
  "''DevOps'' \<noteq> [] \<and> CHR ''/'' \<notin> set ''DevOps''
   \<and> dispatch app (GET ''/echo/DevOps'')
     = \<lparr>status_code = 200, content = JSON [(''message'', ''Hello, DevOps!'')]\<rparr>"
  using echo_name_ok [of "''DevOps''"] by simp

text \<open>
  A decoded value that holds a \<^verbatim>\<open>/\<close> is not bound to \<open>{name}\<close>: the segment \<^verbatim>\<open>a%2Fb\<close> reaches
  the router as the path \<^verbatim>\<open>/echo/a/b\<close>, which matches no route.
\<close>

theorem echo_name_slash_not_found:
  "''a/b'' \<noteq> []
   \<and> dispatch app (GET (''/echo/'' @ ''a/b''))
       = \<lparr>status_code = 404, content = JSON [(''detail'', ''Not Found'')]\<rparr>"
  by (simp add: app_defs router_defs GET_def)

text \<open>
  C2. \<^verbatim>\<open>GET /echo\<close> answers 200 with the payload \<^verbatim>\<open>{"message": "Hello, World!"}\<close>, which is
  what the handler returns; it has no other outcome.
\<close>

theorem echo_ok:
  "dispatch app (GET ''/echo'')
     = \<lparr>status_code = 200, content = JSON [(''message'', ''Hello, World!'')]\<rparr>
   \<and> echo = [(''message'', ''Hello, World!'')]"
  by (simp add: app_defs router_defs GET_def echo_def)

text \<open>
  C3. The test suite expects \<^verbatim>\<open>GET /health\<close> to answer 200 with \<^verbatim>\<open>{"status": "healthy"}\<close>.
  The application has no such route: no endpoint serves the request and the answer is 404.
\<close>

theorem health_not_found:
  "served_by app (GET ''/health'') = None
   \<and> dispatch app (GET ''/health'')
     = \<lparr>status_code = 404, content = JSON [(''detail'', ''Not Found'')]\<rparr>"
  by (simp add: app_defs router_defs GET_def)

subsection \<open>Requests that no handler serves\<close>

text \<open>
  C4. A request whose method is not GET, or whose path matches neither route of the service,
  is served by neither handler of the service, and its answer is the framework's:
  \<^item> on a path of the service, 405;
  \<^item> on one of the framework's own paths (\<^verbatim>\<open>/openapi.json\<close>, \<^verbatim>\<open>/docs\<close>,
    \<^verbatim>\<open>/docs/oauth2-redirect\<close>, \<^verbatim>\<open>/redoc\<close>), that page with 200 for GET and HEAD, and 405 for
    every other method;
  \<^item> on a path that ends in \<^verbatim>\<open>/\<close>, a 307 redirect to the path without its trailing slashes
    when that path matches a route, and 404 when it does not;
  \<^item> on every other path, 404.

  \<^verbatim>\<open>GET /unknown\<close> answers 404.
\<close>

theorem unserved_request_response:
  assumes "http_method req \<noteq> ''GET''
      \<or> (path_table (path req) \<noteq> Some Echo \<and> path_table (path req) \<noteq> Some Echo_name)"
  shows "served_by app req \<noteq> Some Echo \<and> served_by app req \<noteq> Some Echo_name
   \<and> (path_table (path req) = Some e \<longrightarrow>
        dispatch app req =
          (if e = Echo \<or> e = Echo_name
           then \<lparr>status_code = 405, content = JSON [(''detail'', ''Method Not Allowed'')]\<rparr>
           else if http_method req = ''GET'' \<or> http_method req = ''HEAD''
           then \<lparr>status_code = 200, content = Page e\<rparr>
           else \<lparr>status_code = 405, content = JSON [(''detail'', ''Method Not Allowed'')]\<rparr>))
   \<and> (path req = q @ replicate (Suc k) CHR ''/'' \<longrightarrow> (q = [] \<or> last q \<noteq> CHR ''/'') \<longrightarrow>
        dispatch app req =
          (if path_table q = None
           then \<lparr>status_code = 404, content = JSON [(''detail'', ''Not Found'')]\<rparr>
           else \<lparr>status_code = 307, content = Location q\<rparr>))
   \<and> (path_table (path req) = None \<longrightarrow> (path req = [] \<or> last (path req) \<noteq> CHR ''/'') \<longrightarrow>
        dispatch app req
          = \<lparr>status_code = 404, content = JSON [(''detail'', ''Not Found'')]\<rparr>)
   \<and> dispatch app (GET ''/unknown'')
       = \<lparr>status_code = 404, content = JSON [(''detail'', ''Not Found'')]\<rparr>"
proof -
  obtain m p where req: "req = \<lparr>http_method = m, path = p\<rparr>"
    by (cases req) simp
  have served: "served_by app req \<noteq> Some Echo \<and> served_by app req \<noteq> Some Echo_name"
  proof (cases "path_table p")
    case None
    from dispatch_unknown [OF None] show ?thesis
      by (simp add: req)
  next
    case (Some e')
    from dispatch_known [OF Some] assms show ?thesis
      by (auto simp: req Some)
  qed
  have known: "dispatch app req =
          (if e = Echo \<or> e = Echo_name
           then \<lparr>status_code = 405, content = JSON [(''detail'', ''Method Not Allowed'')]\<rparr>
           else if http_method req = ''GET'' \<or> http_method req = ''HEAD''
           then \<lparr>status_code = 200, content = Page e\<rparr>
           else \<lparr>status_code = 405, content = JSON [(''detail'', ''Method Not Allowed'')]\<rparr>)"
    if "path_table (path req) = Some e"
  proof -
    from that have t: "path_table p = Some e"
      by (simp add: req)
    from dispatch_known [OF t, of m] assms t show ?thesis
      by (cases e) (auto simp: req method_not_allowed_def)
  qed
  have strip: "dispatch app req =
          (if path_table q = None
           then \<lparr>status_code = 404, content = JSON [(''detail'', ''Not Found'')]\<rparr>
           else \<lparr>status_code = 307, content = Location q\<rparr>)"
    if "path req = q @ replicate (Suc k) CHR ''/''" and "q = [] \<or> last q \<noteq> CHR ''/''"
  proof -
    from that have p: "p = q @ replicate (Suc k) CHR ''/''"
      by (simp add: req)
    have none: "path_table p = None"
      unfolding p by (rule slashes_end_unknown)
    have r: "redirect_path p = q"
      unfolding p using that(2) by (rule redirect_path_strip)
    have "path_table q = None" if "p = ''/''"
    proof -
      from that p have "q = []"
        by (cases q) (simp_all add: Cons_replicate_eq)
      then show ?thesis
        by (simp add: path_table_def)
    qed
    with dispatch_unknown [OF none, of m] r show ?thesis
      by (auto simp: req not_found_def)
  qed
  have other: "dispatch app req
          = \<lparr>status_code = 404, content = JSON [(''detail'', ''Not Found'')]\<rparr>"
    if "path_table (path req) = None" and "path req = [] \<or> last (path req) \<noteq> CHR ''/''"
  proof -
    from that have none: "path_table p = None" and l: "p = [] \<or> last p \<noteq> CHR ''/''"
      by (simp_all add: req)
    from dispatch_unknown [OF none, of m] redirect_path_add [OF l] slash_end_unknown [of p]
    show ?thesis
      by (simp add: req not_found_def)
  qed
  have unknown: "dispatch app (GET ''/unknown'')
      = \<lparr>status_code = 404, content = JSON [(''detail'', ''Not Found'')]\<rparr>"
    by (simp add: app_defs router_defs GET_def)
  from served known strip other unknown show ?thesis
    by blast
qed

theorem unserved_request_response_witness:
  "dispatch app \<lparr>http_method = ''POST'', path = ''/echo''\<rparr>
       = \<lparr>status_code = 405, content = JSON [(''detail'', ''Method Not Allowed'')]\<rparr>
   \<and> dispatch app \<lparr>http_method = ''HEAD'', path = ''/echo/DevOps''\<rparr>
       = \<lparr>status_code = 405, content = JSON [(''detail'', ''Method Not Allowed'')]\<rparr>
   \<and> dispatch app \<lparr>http_method = ''HEAD'', path = ''/docs''\<rparr>
       = \<lparr>status_code = 200, content = Page Swagger_ui_html\<rparr>
   \<and> dispatch app \<lparr>http_method = ''POST'', path = ''/docs''\<rparr>
       = \<lparr>status_code = 405, content = JSON [(''detail'', ''Method Not Allowed'')]\<rparr>
   \<and> dispatch app \<lparr>http_method = ''GET'', path = ''/echo/DevOps//''\<rparr>
       = \<lparr>status_code = 307, content = Location ''/echo/DevOps''\<rparr>
   \<and> dispatch app \<lparr>http_method = ''GET'', path = ''/health/''\<rparr>
       = \<lparr>status_code = 404, content = JSON [(''detail'', ''Not Found'')]\<rparr>
   \<and> dispatch app \<lparr>http_method = ''GET'', path = ''/health''\<rparr>
       = \<lparr>status_code = 404, content = JSON [(''detail'', ''Not Found'')]\<rparr>
   \<and> served_by app \<lparr>http_method = ''POST'', path = ''/echo''\<rparr> \<noteq> Some Echo"
  using
    unserved_request_response [of "\<lparr>http_method = ''POST'', path = ''/echo''\<rparr>" Echo]
    unserved_request_response
      [of "\<lparr>http_method = ''HEAD'', path = ''/echo/DevOps''\<rparr>" Echo_name]
    unserved_request_response
      [of "\<lparr>http_method = ''HEAD'', path = ''/docs''\<rparr>" Swagger_ui_html]
    unserved_request_response
      [of "\<lparr>http_method = ''POST'', path = ''/docs''\<rparr>" Swagger_ui_html]
    unserved_request_response
      [of "\<lparr>http_method = ''GET'', path = ''/echo/DevOps//''\<rparr>" _ "''/echo/DevOps''" 1]
    unserved_request_response
      [of "\<lparr>http_method = ''GET'', path = ''/health/''\<rparr>" _ "''/health''" 0]
    unserved_request_response [of "\<lparr>http_method = ''GET'', path = ''/health''\<rparr>"]
  by (simp add: path_table_def)

text \<open>
  404 and 405 are not the only answers to such requests. The path of \<^verbatim>\<open>GET /echo/DevOps/\<close>
  matches no route, and the request is answered with a redirect to \<^verbatim>\<open>/echo/DevOps\<close>; the path
  \<^verbatim>\<open>/docs\<close> is none of the service's, and both GET and HEAD get the documentation page.
\<close>

theorem unserved_other_answers:
  "\<not> path_known app ''/echo/DevOps/''
   \<and> dispatch app (GET ''/echo/DevOps/'')
       = \<lparr>status_code = 307, content = Location ''/echo/DevOps''\<rparr>
   \<and> path_table ''/docs'' = Some Swagger_ui_html
   \<and> dispatch app (GET ''/docs'') = \<lparr>status_code = 200, content = Page Swagger_ui_html\<rparr>
   \<and> dispatch app \<lparr>http_method = ''HEAD'', path = ''/docs''\<rparr>
       = \<lparr>status_code = 200, content = Page Swagger_ui_html\<rparr>"
  by (simp add: path_known_def path_table_def app_defs router_defs GET_def)

text \<open>
  C5. \<^verbatim>\<open>GET /echo/\<close> matches no handler: the parameter \<open>{name}\<close> binds exactly the non-empty
  segments. The answer is the framework's redirect to the path without its trailing slash,
  307 with location \<^verbatim>\<open>/echo\<close>.
\<close>

theorem echo_empty_segment:
  "(match_path (Param ''/echo/'' ''name'') (''/echo/'' @ s) \<noteq> None)
     = (s \<noteq> [] \<and> CHR ''/'' \<notin> set s)
   \<and> served_by app (GET ''/echo/'') = None
   \<and> dispatch app (GET ''/echo/'') = \<lparr>status_code = 307, content = Location ''/echo''\<rparr>"
  by (simp add: app_defs router_defs GET_def)

text \<open>The answer to \<^verbatim>\<open>GET /echo/\<close> is not a 404.\<close>

theorem echo_empty_segment_not_404:
  "status_code (dispatch app (GET ''/echo/'')) \<noteq> 404"
  by (simp add: app_defs router_defs GET_def)

subsection \<open>Payloads\<close>

text \<open>
  C7. Every response that a handler of the service produces is a 200 whose payload has the
  single field \<^verbatim>\<open>message\<close>, holding a string; so are the dicts the two handlers return.
\<close>

theorem handler_payload_message:
  assumes "served_by app req = Some Echo \<or> served_by app req = Some Echo_name"
  shows "status_code (dispatch app req) = 200
   \<and> (\<exists>v. content (dispatch app req) = JSON [(''message'', v)])
   \<and> map fst echo = [''message''] \<and> map fst (echo_name name) = [''message'']"
proof (cases "find_route app req None")
  case None
  with assms show ?thesis
    by (simp add: served_by_def)
next
  case (Some a)
  obtain r ps where a: "a = (r, ps)"
    by (cases a)
  note found = dispatch_found [OF Some [unfolded a]]
  from assms have m: "http_method req \<in> set (methods r)"
    and e: "endpoint r = Echo \<or> endpoint r = Echo_name"
    by (auto simp: served_by_def Some a split: if_splits)
  from run_app_route [OF found(2) found(3)] e show ?thesis
    unfolding found(1) handle_def using m by (auto simp: echo_def echo_name_def)
qed

theorem handler_payload_message_witness:
  "served_by app (GET ''/echo/DevOps'') = Some Echo_name
   \<and> status_code (dispatch app (GET ''/echo/DevOps'')) = 200
   \<and> (\<exists>v. content (dispatch app (GET ''/echo/DevOps'')) = JSON [(''message'', v)])"
proof -
  have h: "served_by app (GET ''/echo/DevOps'') = Some Echo_name"
    by (simp add: app_defs router_defs GET_def)
  from handler_payload_message [OF disjI2, OF h] h show ?thesis
    by simp
qed

text \<open>
  C8. The two handlers agree at the name \<^verbatim>\<open>World\<close>: \<^verbatim>\<open>echo()\<close> is \<^verbatim>\<open>echo_name("World")\<close>, and
  \<^verbatim>\<open>GET /echo\<close> and \<^verbatim>\<open>GET /echo/World\<close> get the same response.
\<close>

theorem echo_is_echo_name_World:
  "echo = echo_name ''World''
   \<and> dispatch app (GET ''/echo'') = dispatch app (GET ''/echo/World'')"
  by (simp add: app_defs router_defs GET_def echo_def echo_name_def)


text \<open>
  C10. \<^verbatim>\<open>echo_name\<close> is injective: distinct names give distinct payloads and distinct
  messages, and removing the prefix \<^verbatim>\<open>Hello, \<close> and the suffix \<^verbatim>\<open>!\<close> from a message gives
  the name back.
\<close>

theorem echo_name_injective:
  "s1 \<noteq> s2 \<Longrightarrow>
   echo_name s1 \<noteq> echo_name s2
   \<and> map_of (echo_name s1) ''message'' \<noteq> map_of (echo_name s2) ''message''
   \<and> strip_greeting (echo_name s1) = Some s1
   \<and> strip_greeting (echo_name s2) = Some s2"
  by (simp add: echo_name_def strip_greeting_def removeprefix_def removesuffix_def)

theorem echo_name_injective_witness:
  "''Ada'' \<noteq> ''Bob''
   \<and> echo_name ''Ada'' \<noteq> echo_name ''Bob''
   \<and> strip_greeting (echo_name ''Ada'') = Some ''Ada''
   \<and> strip_greeting (echo_name ''Bob'') = Some ''Bob''"
proof -
  have h: "''Ada'' \<noteq> ''Bob''"
    by simp
  from echo_name_injective [OF h] h show ?thesis
    by simp
qed

end
